theory Spec2Isabelle
  imports Complex_Main "HOL-Library.AList" "HOL-Library.Multiset" "HOL-Library.Log_Nat"
begin

section \<open>Data model (src/index.tsx, lines 10-68)\<close>

text \<open>
  The ledger of the application lives in the \<^verbatim>\<open>App\<close> component of
  \<^verbatim>\<open>src/index.tsx\<close>: three pieces of React state (users, transactions, session),
  the live price, and the handlers that replace them.

  Conventions of the embedding:
  \<^item> a JavaScript \<^verbatim>\<open>number\<close> holding grams or ETB is the \<open>real\<close> value of an IEEE-754
    double. Every \<^verbatim>\<open>+\<close>, \<^verbatim>\<open>-\<close>, \<^verbatim>\<open>*\<close> and \<^verbatim>\<open>/\<close> of the ledger code is the exact
    operation followed by \<open>fl\<close>, rounding to the nearest double with ties to even; a
    decimal literal that is no double (\<^verbatim>\<open>0.05\<close>, \<^verbatim>\<open>19875.63\<close>) stands for \<open>fl\<close> of
    it. Comparisons are exact. Results beyond the largest double (\<^verbatim>\<open>Infinity\<close>) are
    outside the model;
  \<^item> the result of \<^verbatim>\<open>parseFloat\<close> on a form field is a \<open>real option\<close>, where
    \<open>None\<close> is \<^verbatim>\<open>NaN\<close> (empty or unparsable text);
  \<^item> \<^verbatim>\<open>Transaction.date\<close> is an ISO string that the code only ever reads through
    \<^verbatim>\<open>new Date(date).getTime()\<close>; the field holds that number of milliseconds.
    The readings of \<^verbatim>\<open>Date.now()\<close> and \<^verbatim>\<open>new Date()\<close> are arguments of the
    handlers, one per call in the source, in evaluation order;
  \<^item> \<^verbatim>\<open>Record<string, User>\<close> is an association list in insertion order, the order
    in which \<^verbatim>\<open>Object.values\<close> enumerates string keys such as \<^verbatim>\<open>usr_1\<close>;
    \<^verbatim>\<open>obj[k] = v\<close> is \<open>AList.update\<close> (in place for a known key, appended otherwise);
  \<^item> every handler returns an outcome together with the state after it; a handler that
    returns early, or throws before its first \<^verbatim>\<open>set...\<close> call, returns the state it got;
  \<^item> the keys every object inherits (\<^verbatim>\<open>constructor\<close>, \<^verbatim>\<open>toString\<close>, ...) are outside the
    model: no form sends them as a user id.
\<close>

subsection \<open>Rounding to the nearest double\<close>

text \<open>
  \<open>ilog2 x\<close> is the integer part of the binary logarithm of a positive \<open>x\<close>. A double
  has 53 significant bits and a least exponent of \<open>-1074\<close> (below that, fewer bits:
  subnormal numbers); \<open>fl x\<close> is the multiple of \<open>2 ^ e\<close> nearest to \<open>x\<close>, the even
  multiple when two are equally near, for the exponent \<open>e\<close> that gives 53 bits.
\<close>

definition ilog2 :: "real \<Rightarrow> int" where
  "ilog2 x =
    (if 1 \<le> x then bitlen \<lfloor>x\<rfloor> - 1
     else (let m = bitlen \<lfloor>1 / x\<rfloor> - 1 in if x * 2 ^ nat m = 1 then - m else - m - 1))"

definition round_half_even :: "real \<Rightarrow> int" where
  "round_half_even x =
    (let f = \<lfloor>x\<rfloor>; d = x - of_int f
     in if d < 1 / 2 then f else if 1 / 2 < d then f + 1 else if even f then f else f + 1)"

definition pow2 :: "int \<Rightarrow> real" where
  "pow2 e = (if 0 \<le> e then 2 ^ nat e else 1 / 2 ^ nat (- e))"

definition fl :: "real \<Rightarrow> real" where
  "fl x =
    (if x = 0 then 0
     else (let e = max (ilog2 \<bar>x\<bar> - 52) (- 1074);
               m = round_half_even (\<bar>x\<bar> / pow2 e)
           in sgn x * of_int m * pow2 e))"


subsection \<open>Records and seeded data\<close>

datatype tx_type =
  conversion | transfer_in | transfer_out | withdrawal | loan
  | guarantee_provided | loan_repayment | referral_bonus

datatype tx_status = completed | pending | failed

datatype user_role = role_user | role_admin

datatype approval_action = approve | reject

record Transaction =
  tx_id :: string
  tx_date :: int
  tx_type :: tx_type
  amountGrams :: real
  amountETB :: "real option"
  tx_from :: "string option"
  tx_to :: "string option"
  status :: tx_status
  userId :: string

record User =
  user_id :: string
  name :: string
  phone :: string
  email :: string
  role :: user_role
  goldBalance :: real
  etbBalance :: real
  guaranteedGrams :: real
  referralCode :: string
  joinDate :: string

text \<open>\<^verbatim>\<open>Omit<Transaction, 'id' | 'date' | 'userId'>\<close>, the argument of \<^verbatim>\<open>handleNewTransaction\<close>.\<close>

record TransactionDraft =
  d_type :: tx_type
  d_amountGrams :: real
  d_amountETB :: "real option"
  d_from :: "string option"
  d_to :: "string option"
  d_status :: tx_status

definition BASE_GOLD_PRICE_ETB :: real where
  "BASE_GOLD_PRICE_ETB = 7950.25"

definition LOAN_TO_VALUE_RATIO :: real where
  "LOAN_TO_VALUE_RATIO = 0.5"

definition LOAN_COMMISSION_RATE :: real where
  "LOAN_COMMISSION_RATE = fl 0.05"

definition usr_1 :: User where
  "usr_1 =
    \<lparr>user_id = ''usr_1'', name = ''Abebe Bikila'', phone = ''+251912345678'',
     email = ''abebe@example.com'', role = role_user, goldBalance = 5.75,
     etbBalance = 12000, guaranteedGrams = 0.5, referralCode = ''GOLDENAB24'',
     joinDate = ''2023-08-15''\<rparr>"

definition usr_2 :: User where
  "usr_2 =
    \<lparr>user_id = ''usr_2'', name = ''Fatuma Roba'', phone = ''+251923456789'',
     email = ''fatuma@example.com'', role = role_user, goldBalance = 12.25,
     etbBalance = 5500, guaranteedGrams = 0, referralCode = ''FATUMA88'',
     joinDate = ''2023-01-20''\<rparr>"

definition usr_3 :: User where
  "usr_3 =
    \<lparr>user_id = ''usr_3'', name = ''Admin User'', phone = ''+251900000000'',
     email = ''admin@goldendigital.pro.et'', role = role_admin, goldBalance = 0,
     etbBalance = 1000000, guaranteedGrams = 0, referralCode = ''ADMINPRO'',
     joinDate = ''2022-11-01''\<rparr>"

definition INITIAL_USERS :: "(string \<times> User) list" where
  "INITIAL_USERS = [(''usr_1'', usr_1), (''usr_2'', usr_2), (''usr_3'', usr_3)]"

text \<open>
  The seeded dates in milliseconds since the epoch: 2024-07-22T10:00:00Z is
  1721642400000, 2024-07-21T15:30:00Z is 1721575800000, 2024-07-20T09:00:00Z is
  1721466000000, 2024-07-23T11:00:00Z is 1721732400000, 2024-07-18T12:00:00Z is
  1721304000000 and 2024-07-24T09:00:00Z is 1721811600000.
\<close>

definition INITIAL_TRANSACTIONS :: "Transaction list" where
  "INITIAL_TRANSACTIONS =
    [\<lparr>tx_id = ''tx_1'', tx_date = 1721642400000, tx_type = conversion, amountGrams = 2.5,
       amountETB = Some (fl 19875.63), tx_from = None, tx_to = None, status = completed,
       userId = ''usr_1''\<rparr>,
     \<lparr>tx_id = ''tx_2'', tx_date = 1721575800000, tx_type = transfer_out, amountGrams = 1.0,
       amountETB = None, tx_from = Some ''Abebe Bikila'', tx_to = Some ''Fatuma Roba'',
       status = completed, userId = ''usr_1''\<rparr>,
     \<lparr>tx_id = ''tx_3'', tx_date = 1721575800000, tx_type = transfer_in, amountGrams = 1.0,
       amountETB = None, tx_from = Some ''Abebe Bikila'', tx_to = Some ''Fatuma Roba'',
       status = completed, userId = ''usr_2''\<rparr>,
     \<lparr>tx_id = ''tx_4'', tx_date = 1721466000000, tx_type = loan, amountGrams = 1.5,
       amountETB = Some 5887.5, tx_from = None, tx_to = None, status = completed,
       userId = ''usr_2''\<rparr>,
     \<lparr>tx_id = ''tx_5'', tx_date = 1721732400000, tx_type = conversion, amountGrams = 0.5,
       amountETB = Some (fl 3975.13), tx_from = None, tx_to = None, status = pending,
       userId = ''usr_1''\<rparr>,
     \<lparr>tx_id = ''tx_6'', tx_date = 1721304000000, tx_type = guarantee_provided,
       amountGrams = 0.5, amountETB = None, tx_from = None, tx_to = Some ''Friend Account'',
       status = completed, userId = ''usr_1''\<rparr>,
     \<lparr>tx_id = ''tx_7'', tx_date = 1721811600000, tx_type = withdrawal, amountGrams = 2.0,
       amountETB = None, tx_from = None, tx_to = None, status = pending,
       userId = ''usr_2''\<rparr>]"

text \<open>The state of \<^verbatim>\<open>App\<close> that the handlers read and replace (lines 526-532).\<close>

record ledger =
  users :: "(string \<times> User) list"
  transactions :: "Transaction list"
  currentUserId :: "string option"
  livePrice :: real

text \<open>The state of a first start: local storage is empty, so every hook takes its initial value.\<close>

definition initial_ledger :: ledger where
  "initial_ledger =
    \<lparr>users = INITIAL_USERS, transactions = INITIAL_TRANSACTIONS, currentUserId = None,
     livePrice = BASE_GOLD_PRICE_ETB\<rparr>"

text \<open>
  Line 542: \<^verbatim>\<open>currentUserId ? users[currentUserId] : null\<close>. The empty string is falsy,
  and an unknown key gives \<^verbatim>\<open>undefined\<close>, which every \<^verbatim>\<open>!currentUser\<close> test treats
  like \<^verbatim>\<open>null\<close>.
\<close>

definition currentUser :: "ledger \<Rightarrow> User option" where
  "currentUser s =
    (case currentUserId s of
       None \<Rightarrow> None
     | Some k \<Rightarrow> if k = [] then None else map_of (users s) k)"

datatype outcome =
  Done
  | NoSession
  | NotFound
  | TypeError
  | NotOffered
  | ValidationError string

section \<open>Helpers of the handlers\<close>

text \<open>The decimal text of a number inside a template literal, \<^verbatim>\<open>`${Date.now()}`\<close>.\<close>

function decimal :: "nat \<Rightarrow> string" where
  "decimal n =
    (if n < 10 then [''0123456789'' ! n]
     else decimal (n div 10) @ [''0123456789'' ! (n mod 10)])"
  by pat_completeness auto
termination
  by (relation "measure (\<lambda>n. n)") auto

declare decimal.simps [simp del]

definition String_of :: "int \<Rightarrow> string" where
  "String_of i = (if i < 0 then ''-'' @ decimal (nat (- i)) else decimal (nat i))"

text \<open>
  \<^verbatim>\<open>.sort((a,b) => new Date(b.date).getTime() - new Date(a.date).getTime())\<close>:
  a stable sort by date, latest first. A stable sort has one result for a given input,
  the one insertion sort on the negated date computes.
\<close>

definition sort_by_date_desc :: "Transaction list \<Rightarrow> Transaction list" where
  "sort_by_date_desc txs = sort_key (\<lambda>t. - tx_date t) txs"

text \<open>\<^verbatim>\<open>transactions.find(t => t.id === txId)\<close>.\<close>

definition find_tx :: "string \<Rightarrow> Transaction list \<Rightarrow> Transaction option" where
  "find_tx txId txs = find (\<lambda>t. tx_id t = txId) txs"

text \<open>
  Line 171: \<^verbatim>\<open>Object.values(users).find(u => (u.phone === recipientIdentifier ||
  u.email === recipientIdentifier) && u.id !== user.id)\<close>.
\<close>

definition find_recipient :: "(string \<times> User) list \<Rightarrow> User \<Rightarrow> string \<Rightarrow> User option" where
  "find_recipient us cu recipientIdentifier =
    find (\<lambda>u. (phone u = recipientIdentifier \<or> email u = recipientIdentifier)
               \<and> user_id u \<noteq> user_id cu) (map snd us)"

text \<open>Line 562: the record \<^verbatim>\<open>{ ...tx, id: `tx_${Date.now()}`, date, userId }\<close>.\<close>

definition newTx :: "User \<Rightarrow> TransactionDraft \<Rightarrow> int \<Rightarrow> int \<Rightarrow> Transaction" where
  "newTx cu tx now_id now_date =
    \<lparr>tx_id = ''tx_'' @ String_of now_id, tx_date = now_date, tx_type = d_type tx,
     amountGrams = d_amountGrams tx, amountETB = d_amountETB tx, tx_from = d_from tx,
     tx_to = d_to tx, status = d_status tx, userId = user_id cu\<rparr>"

text \<open>Lines 578 and 579: the two records of a transfer.\<close>

definition outTx :: "User \<Rightarrow> User \<Rightarrow> real \<Rightarrow> int \<Rightarrow> int \<Rightarrow> Transaction" where
  "outTx sender recipient g now_id now_date =
    \<lparr>tx_id = ''tx_'' @ String_of now_id @ ''_out'', tx_date = now_date,
     tx_type = transfer_out, amountGrams = g, amountETB = None,
     tx_from = Some (name sender), tx_to = Some (name recipient), status = completed,
     userId = user_id sender\<rparr>"

definition inTx :: "User \<Rightarrow> User \<Rightarrow> real \<Rightarrow> int \<Rightarrow> int \<Rightarrow> Transaction" where
  "inTx sender recipient g now_id now_date =
    \<lparr>tx_id = ''tx_'' @ String_of now_id @ ''_in'', tx_date = now_date,
     tx_type = transfer_in, amountGrams = g, amountETB = None,
     tx_from = Some (name sender), tx_to = Some (name recipient), status = completed,
     userId = user_id recipient\<rparr>"

section \<open>The handlers of App (lines 550-623, 660)\<close>

definition handleLogin :: "ledger \<Rightarrow> string \<Rightarrow> outcome \<times> ledger" where
  "handleLogin s uid =
    (case map_of (users s) uid of
       Some u \<Rightarrow> (Done, s\<lparr>currentUserId := Some uid\<rparr>)
     | None \<Rightarrow> (NotFound, s))"

definition handleLogout :: "ledger \<Rightarrow> outcome \<times> ledger" where
  "handleLogout s = (Done, s\<lparr>currentUserId := None\<rparr>)"

definition handleNewTransaction ::
  "ledger \<Rightarrow> TransactionDraft \<Rightarrow> int \<Rightarrow> int \<Rightarrow> outcome \<times> ledger" where
  "handleNewTransaction s tx now_id now_date =
    (case currentUser s of
       None \<Rightarrow> (NoSession, s)
     | Some cu \<Rightarrow>
         (Done, s\<lparr>transactions :=
                    sort_by_date_desc (newTx cu tx now_id now_date # transactions s)\<rparr>))"

text \<open>
  \<^verbatim>\<open>handleTransfer\<close> of \<^verbatim>\<open>App\<close>. \<^verbatim>\<open>users[recipientId]\<close> of an unknown id is
  \<^verbatim>\<open>undefined\<close>, and \<^verbatim>\<open>recipient.id\<close> on line 574 then throws before \<^verbatim>\<open>setUsers\<close>.
  The sender is written first and the recipient second, into the same copy.
\<close>

definition handleTransfer ::
  "ledger \<Rightarrow> string \<Rightarrow> real \<Rightarrow> int \<Rightarrow> int \<Rightarrow> int \<Rightarrow> int \<Rightarrow> outcome \<times> ledger" where
  "handleTransfer s recipientId g out_id out_date in_id in_date =
    (case currentUser s of
       None \<Rightarrow> (NoSession, s)
     | Some sender \<Rightarrow>
         (case map_of (users s) recipientId of
            None \<Rightarrow> (TypeError, s)
          | Some recipient \<Rightarrow>
              (Done,
               s\<lparr>users :=
                    AList.update (user_id recipient)
                      (recipient\<lparr>goldBalance := fl (goldBalance recipient + g)\<rparr>)
                      (AList.update (user_id sender)
                         (sender\<lparr>goldBalance := fl (goldBalance sender - g)\<rparr>) (users s)),
                  transactions :=
                    sort_by_date_desc
                      (outTx sender recipient g out_id out_date
                       # inTx sender recipient g in_id in_date
                       # transactions s)\<rparr>)))"

definition handleWithdraw :: "ledger \<Rightarrow> real \<Rightarrow> int \<Rightarrow> int \<Rightarrow> outcome \<times> ledger" where
  "handleWithdraw s g now_id now_date =
    handleNewTransaction s
      \<lparr>d_type = withdrawal, d_amountGrams = g, d_amountETB = None, d_from = None,
       d_to = None, d_status = pending\<rparr> now_id now_date"

text \<open>
  \<^verbatim>\<open>handleLoan\<close>: \<^verbatim>\<open>setUsers\<close> and then \<^verbatim>\<open>handleNewTransaction\<close>, which reads
  \<^verbatim>\<open>currentUser\<close> and the transactions of the same render.
\<close>

definition handleLoan :: "ledger \<Rightarrow> real \<Rightarrow> real \<Rightarrow> int \<Rightarrow> int \<Rightarrow> outcome \<times> ledger" where
  "handleLoan s collateralGrams loanETB now_id now_date =
    (case currentUser s of
       None \<Rightarrow> (NoSession, s)
     | Some cu \<Rightarrow>
         (let receivedETB = fl (loanETB * fl (1 - LOAN_COMMISSION_RATE));
              updatedUsers =
                AList.update (user_id cu)
                  (cu\<lparr>goldBalance := fl (goldBalance cu - collateralGrams),
                      etbBalance := fl (etbBalance cu + receivedETB)\<rparr>) (users s);
              (r, s') =
                handleNewTransaction s
                  \<lparr>d_type = loan, d_amountGrams = collateralGrams,
                   d_amountETB = Some loanETB, d_from = None, d_to = None,
                   d_status = completed\<rparr> now_id now_date
          in (r, s'\<lparr>users := updatedUsers\<rparr>)))"

text \<open>
  \<^verbatim>\<open>handleApproval\<close>. \<^verbatim>\<open>user\<close> is only dereferenced when a conversion or a
  withdrawal is approved; an unknown owner throws there, before \<^verbatim>\<open>setUsers\<close>.
  The status of the transaction is not read.
\<close>

definition handleApproval :: "ledger \<Rightarrow> string \<Rightarrow> approval_action \<Rightarrow> outcome \<times> ledger" where
  "handleApproval s txId action =
    (case find_tx txId (transactions s) of
       None \<Rightarrow> (NotFound, s)
     | Some tx \<Rightarrow>
         (let updatedTransactions =
                map (\<lambda>t. if tx_id t = txId
                         then t\<lparr>status := (if action = approve then completed else failed)\<rparr>
                         else t) (transactions s)
          in if action = approve \<and> tx_type tx = conversion then
               (case map_of (users s) (userId tx) of
                  None \<Rightarrow> (TypeError, s)
                | Some u \<Rightarrow>
                    (Done,
                     s\<lparr>users :=
                          AList.update (user_id u)
                            (u\<lparr>goldBalance := fl (goldBalance u + amountGrams tx)\<rparr>) (users s),
                        transactions := updatedTransactions\<rparr>))
             else if action = approve \<and> tx_type tx = withdrawal then
               (case map_of (users s) (userId tx) of
                  None \<Rightarrow> (TypeError, s)
                | Some u \<Rightarrow>
                    (Done,
                     s\<lparr>users :=
                          AList.update (user_id u)
                            (u\<lparr>goldBalance := fl (goldBalance u - amountGrams tx)\<rparr>) (users s),
                        transactions := updatedTransactions\<rparr>))
             else (Done, s\<lparr>transactions := updatedTransactions\<rparr>)))"

text \<open>
  Line 660, one tick of the price interval: \<^verbatim>\<open>f = (Math.random() - 0.5) * 10\<close> and
  \<^verbatim>\<open>setLivePrice(p => Math.max(7800, p + f))\<close>. The argument \<open>r\<close> is the value of
  \<^verbatim>\<open>Math.random()\<close>, a number in \<open>[0, 1)\<close>. The feed is stated for every real
  price and is kept on the exact operations.
\<close>

definition price_delta :: "real \<Rightarrow> real" where
  "price_delta r = (r - 0.5) * 10"

definition price_tick :: "real \<Rightarrow> real \<Rightarrow> real" where
  "price_tick r p = max 7800 (p + price_delta r)"

text \<open>The prices of a run of ticks, the starting price first.\<close>

fun prices :: "real \<Rightarrow> real list \<Rightarrow> real list" where
  "prices p [] = [p]"
| "prices p (r # rs) = p # prices (price_tick r p) rs"

section \<open>The forms that call the handlers\<close>

text \<open>
  \<^verbatim>\<open>TransferModal.handleTransfer\<close> (lines 160-177): an error message for \<^verbatim>\<open>setError\<close>,
  or the arguments of \<^verbatim>\<open>onTransfer\<close>. \<^verbatim>\<open>!gramAmount\<close> holds for \<^verbatim>\<open>NaN\<close> and for 0.
\<close>

definition TransferModal_handleTransfer ::
  "User \<Rightarrow> (string \<times> User) list \<Rightarrow> string \<Rightarrow> real option \<Rightarrow> string + (string \<times> real)" where
  "TransferModal_handleTransfer cu us recipientIdentifier amount =
    (case amount of
       None \<Rightarrow> Inl ''Please fill in all fields.''
     | Some gramAmount \<Rightarrow>
         if recipientIdentifier = [] \<or> gramAmount = 0 \<or> gramAmount \<le> 0 then
           Inl ''Please fill in all fields.''
         else if gramAmount > goldBalance cu then Inl ''Insufficient gold balance.''
         else (case find_recipient us cu recipientIdentifier of
                 None \<Rightarrow> Inl ''Recipient not found.''
               | Some recipient \<Rightarrow> Inr (user_id recipient, gramAmount)))"

text \<open>\<^verbatim>\<open>WithdrawModal.handleWithdraw\<close> (lines 196-208).\<close>

definition WithdrawModal_handleWithdraw :: "User \<Rightarrow> real option \<Rightarrow> string + real" where
  "WithdrawModal_handleWithdraw cu amount =
    (case amount of
       None \<Rightarrow> Inl ''Please enter a valid amount.''
     | Some gramAmount \<Rightarrow>
         if gramAmount = 0 \<or> gramAmount \<le> 0 then Inl ''Please enter a valid amount.''
         else if gramAmount > goldBalance cu then
           Inl ''Insufficient gold balance for withdrawal.''
         else Inr gramAmount)"

text \<open>
  \<^verbatim>\<open>LoanSelfModal\<close> (lines 234-246): \<^verbatim>\<open>maxLoanableETB\<close> and
  \<^verbatim>\<open>requiredCollateralGrams\<close> are computed at render from the text of the field, and
  \<^verbatim>\<open>handleLoan\<close> passes them on.
\<close>

definition maxLoanableETB :: "User \<Rightarrow> real \<Rightarrow> real" where
  "maxLoanableETB cu price = fl (fl (goldBalance cu * price) * LOAN_TO_VALUE_RATIO)"

definition requiredCollateralGrams :: "real option \<Rightarrow> real \<Rightarrow> real" where
  "requiredCollateralGrams etbAmount price =
    (case etbAmount of
       None \<Rightarrow> 0
     | Some e \<Rightarrow> fl (fl (e / price) / LOAN_TO_VALUE_RATIO))"

definition LoanSelfModal_handleLoan :: "User \<Rightarrow> real \<Rightarrow> real option \<Rightarrow> string + (real \<times> real)" where
  "LoanSelfModal_handleLoan cu price etbAmount =
    (case etbAmount of
       None \<Rightarrow> Inl ''Please enter a valid amount.''
     | Some loanETB \<Rightarrow>
         if loanETB = 0 \<or> loanETB \<le> 0 then Inl ''Please enter a valid amount.''
         else if loanETB > maxLoanableETB cu price then
           Inl ''Requested amount exceeds the maximum allowed.''
         else Inr (requiredCollateralGrams etbAmount price, loanETB))"

text \<open>
  \<^verbatim>\<open>BuyGoldForm\<close> (lines 304-305): \<^verbatim>\<open>handleBuyGold\<close> stores the payment details when
  both amounts are positive, and \<^verbatim>\<open>handleManualPaymentConfirm\<close> turns them into a
  pending conversion.
\<close>

definition handleBuyGold :: "real option \<Rightarrow> real option \<Rightarrow> (real \<times> real) option" where
  "handleBuyGold etbAmount gramAmount =
    (case (etbAmount, gramAmount) of
       (Some etb, Some grams) \<Rightarrow> if etb > 0 \<and> grams > 0 then Some (etb, grams) else None
     | _ \<Rightarrow> None)"

definition handleManualPaymentConfirm ::
  "ledger \<Rightarrow> (real \<times> real) option \<Rightarrow> int \<Rightarrow> int \<Rightarrow> outcome \<times> ledger" where
  "handleManualPaymentConfirm s paymentDetails now_id now_date =
    (case paymentDetails of
       None \<Rightarrow> (NotOffered, s)
     | Some (etb, grams) \<Rightarrow>
         handleNewTransaction s
           \<lparr>d_type = conversion, d_amountGrams = grams, d_amountETB = Some etb,
            d_from = None, d_to = None, d_status = pending\<rparr> now_id now_date)"

section \<open>User intents: a form and the handler behind it\<close>

text \<open>
  \<^verbatim>\<open>App\<close> renders the forms only for a signed-in user (line 662), passes them
  \<^verbatim>\<open>currentUser\<close>, \<^verbatim>\<open>users\<close> and \<^verbatim>\<open>livePrice\<close> of the same render, and shows the
  admin console only to an administrator (line 675), where only pending transactions
  have an approve and a reject button (lines 429-453).
\<close>

definition transfer_intent ::
  "ledger \<Rightarrow> string \<Rightarrow> real option \<Rightarrow> int \<Rightarrow> int \<Rightarrow> int \<Rightarrow> int \<Rightarrow> outcome \<times> ledger" where
  "transfer_intent s recipientIdentifier amount out_id out_date in_id in_date =
    (case currentUser s of
       None \<Rightarrow> (NoSession, s)
     | Some cu \<Rightarrow>
         (case TransferModal_handleTransfer cu (users s) recipientIdentifier amount of
            Inl msg \<Rightarrow> (ValidationError msg, s)
          | Inr (recipientId, g) \<Rightarrow>
              handleTransfer s recipientId g out_id out_date in_id in_date))"

definition withdraw_intent :: "ledger \<Rightarrow> real option \<Rightarrow> int \<Rightarrow> int \<Rightarrow> outcome \<times> ledger" where
  "withdraw_intent s amount now_id now_date =
    (case currentUser s of
       None \<Rightarrow> (NoSession, s)
     | Some cu \<Rightarrow>
         (case WithdrawModal_handleWithdraw cu amount of
            Inl msg \<Rightarrow> (ValidationError msg, s)
          | Inr g \<Rightarrow> handleWithdraw s g now_id now_date))"

definition loan_intent :: "ledger \<Rightarrow> real option \<Rightarrow> int \<Rightarrow> int \<Rightarrow> outcome \<times> ledger" where
  "loan_intent s etbAmount now_id now_date =
    (case currentUser s of
       None \<Rightarrow> (NoSession, s)
     | Some cu \<Rightarrow>
         (case LoanSelfModal_handleLoan cu (livePrice s) etbAmount of
            Inl msg \<Rightarrow> (ValidationError msg, s)
          | Inr (collateralGrams, loanETB) \<Rightarrow>
              handleLoan s collateralGrams loanETB now_id now_date))"

definition purchase_intent ::
  "ledger \<Rightarrow> real option \<Rightarrow> real option \<Rightarrow> int \<Rightarrow> int \<Rightarrow> outcome \<times> ledger" where
  "purchase_intent s etbAmount gramAmount now_id now_date =
    (case currentUser s of
       None \<Rightarrow> (NoSession, s)
     | Some cu \<Rightarrow>
         handleManualPaymentConfirm s (handleBuyGold etbAmount gramAmount) now_id now_date)"

definition approval_intent :: "ledger \<Rightarrow> string \<Rightarrow> approval_action \<Rightarrow> outcome \<times> ledger" where
  "approval_intent s txId action =
    (case currentUser s of
       None \<Rightarrow> (NoSession, s)
     | Some cu \<Rightarrow>
         if role cu = role_admin
            \<and> txId \<in> set (map tx_id (filter (\<lambda>t. status t = pending) (transactions s)))
         then handleApproval s txId action
         else (NotOffered, s))"

text \<open>
  \<^verbatim>\<open>AdminDashboard\<close>, lines 429 and 443-453: the console lists
  \<^verbatim>\<open>transactions.filter(tx => tx.status === 'pending')\<close>, and only a listed row carries
  the two buttons, which call \<^verbatim>\<open>onApprove(tx.id)\<close> and \<^verbatim>\<open>onReject(tx.id)\<close> for the
  transaction of that row. A transaction that is not listed has no button to press.
\<close>

definition pendingTransactions :: "ledger \<Rightarrow> Transaction list" where
  "pendingTransactions s = filter (\<lambda>t. status t = pending) (transactions s)"

definition AdminDashboard_resolve ::
  "ledger \<Rightarrow> Transaction \<Rightarrow> approval_action \<Rightarrow> outcome \<times> ledger" where
  "AdminDashboard_resolve s tx action =
    (case currentUser s of
       None \<Rightarrow> (NoSession, s)
     | Some cu \<Rightarrow>
         if role cu = role_admin \<and> tx \<in> set (pendingTransactions s)
         then handleApproval s (tx_id tx) action
         else (NotOffered, s))"

datatype intent =
  Login string
  | Logout
  | Purchase "real option" "real option" int int
  | Transfer string "real option" int int int int
  | Withdraw "real option" int int
  | Loan "real option" int int
  | Resolve string approval_action
  | Tick real

fun step :: "ledger \<Rightarrow> intent \<Rightarrow> ledger" where
  "step s (Login uid) = snd (handleLogin s uid)"
| "step s Logout = snd (handleLogout s)"
| "step s (Purchase e g t1 t2) = snd (purchase_intent s e g t1 t2)"
| "step s (Transfer ident a t1 t2 t3 t4) = snd (transfer_intent s ident a t1 t2 t3 t4)"
| "step s (Withdraw a t1 t2) = snd (withdraw_intent s a t1 t2)"
| "step s (Loan e t1 t2) = snd (loan_intent s e t1 t2)"
| "step s (Resolve txId action) = snd (approval_intent s txId action)"
| "step s (Tick r) = s\<lparr>livePrice := price_tick r (livePrice s)\<rparr>"

definition run :: "ledger \<Rightarrow> intent list \<Rightarrow> ledger" where
  "run s intents = foldl step s intents"

text \<open>The gold and cash balance stored under a user id.\<close>

definition gold_of :: "ledger \<Rightarrow> string \<Rightarrow> real option" where
  "gold_of s k = map_option goldBalance (map_of (users s) k)"

definition etb_of :: "ledger \<Rightarrow> string \<Rightarrow> real option" where
  "etb_of s k = map_option etbBalance (map_of (users s) k)"

text \<open>
  Every key of the users object is the \<^verbatim>\<open>id\<close> of the record stored under it, and no
  key occurs twice (an object has one value per key).
\<close>

definition wf_users :: "(string \<times> User) list \<Rightarrow> bool" where
  "wf_users us \<longleftrightarrow> distinct (map fst us) \<and> list_all (\<lambda>(k, u). user_id u = k) us"


section \<open>Properties stated by the specification\<close>

text \<open>A transaction list in the order of the sort: latest date first.\<close>

definition date_descending :: "Transaction list \<Rightarrow> bool" where
  "date_descending txs = sorted_wrt (\<lambda>a b. tx_date a \<ge> tx_date b) txs"

text \<open>
  The wording of the specification for the two records of a transfer: "swapped
  \<^verbatim>\<open>from\<close>/\<^verbatim>\<open>to\<close>", the sender of one record being the receiver of the other.
\<close>

definition names_swapped :: "Transaction \<Rightarrow> Transaction \<Rightarrow> bool" where
  "names_swapped a b \<longleftrightarrow> tx_from a = tx_to b \<and> tx_to a = tx_from b"

text \<open>What the two records of a transfer hold in the source: the same names in both.\<close>

definition names_equal :: "Transaction \<Rightarrow> Transaction \<Rightarrow> bool" where
  "names_equal a b \<longleftrightarrow> tx_from a = tx_from b \<and> tx_to a = tx_to b"

text \<open>Every balance of every stored user is at least zero.\<close>

definition balances_nonneg :: "ledger \<Rightarrow> bool" where
  "balances_nonneg s \<longleftrightarrow> list_all (\<lambda>(k, u). 0 \<le> goldBalance u \<and> 0 \<le> etbBalance u) (users s)"

text \<open>
  The state of the loan example of the specification: a signed-in user holding 10 g at
  a live price of 8000 ETB per gram.
\<close>

definition loan_example_ledger :: ledger where
  "loan_example_ledger =
    \<lparr>users = AList.update ''usr_1'' (usr_1\<lparr>goldBalance := 10\<rparr>) INITIAL_USERS,
     transactions = INITIAL_TRANSACTIONS, currentUserId = Some ''usr_1'', livePrice = 8000\<rparr>"

text \<open>The seeded state after one of the demo users has signed in.\<close>

definition session_of :: "string \<Rightarrow> ledger" where
  "session_of uid = snd (handleLogin initial_ledger uid)"

section \<open>Evaluation and basic facts\<close>

lemmas fl_eval = fl_def ilog2_def round_half_even_def pow2_def compute_bitlen Let_def

lemmas eval_defs =
  fl_eval pendingTransactions_def AdminDashboard_resolve_def
  initial_ledger_def INITIAL_USERS_def INITIAL_TRANSACTIONS_def usr_1_def usr_2_def usr_3_def
  BASE_GOLD_PRICE_ETB_def LOAN_TO_VALUE_RATIO_def LOAN_COMMISSION_RATE_def currentUser_def
  String_of_def decimal.simps sort_by_date_desc_def find_tx_def find_recipient_def newTx_def
  outTx_def inTx_def handleLogin_def handleLogout_def handleNewTransaction_def
  handleTransfer_def handleWithdraw_def handleLoan_def handleApproval_def price_delta_def
  price_tick_def TransferModal_handleTransfer_def WithdrawModal_handleWithdraw_def
  maxLoanableETB_def requiredCollateralGrams_def LoanSelfModal_handleLoan_def
  handleBuyGold_def handleManualPaymentConfirm_def transfer_intent_def withdraw_intent_def
  loan_intent_def purchase_intent_def approval_intent_def run_def gold_of_def etb_of_def
  wf_users_def session_of_def balances_nonneg_def loan_example_ledger_def


lemma wf_users_lookup: "wf_users us \<Longrightarrow> u \<in> snd ` set us \<Longrightarrow> map_of us (user_id u) = Some u"
  by (auto simp: wf_users_def list_all_iff)


lemma find_recipient_SomeD:
  "find_recipient us cu i = Some r \<Longrightarrow>
   r \<in> snd ` set us \<and> user_id r \<noteq> user_id cu \<and> (phone r = i \<or> email r = i)"
  unfolding find_recipient_def find_Some_iff
  by (metis nth_mem set_map)

lemma mset_sort_by_date_desc: "mset (sort_by_date_desc txs) = mset txs"
  by (simp add: sort_by_date_desc_def)

lemma date_descending_sort: "date_descending (sort_by_date_desc txs)"
proof -
  have "sorted (map (\<lambda>t. - tx_date t) (sort_key (\<lambda>t. - tx_date t) txs))"
    by (rule sorted_sort_key)
  then show ?thesis
    by (simp add: date_descending_def sort_by_date_desc_def sorted_map)
qed

lemma wf_initial: "wf_users (users (session_of uid))"
  by (simp add: eval_defs split: option.splits)

section \<open>Rounding\<close>










lemma round_half_even_nonneg: "0 \<le> x \<Longrightarrow> 0 \<le> round_half_even x"
  by (simp add: round_half_even_def Let_def)

lemma pow2_pos: "0 < pow2 e"
  by (simp add: pow2_def)

lemma fl_nonneg:
  assumes "0 \<le> x"
  shows "0 \<le> fl x"
proof (cases "x = 0")
  case True
  then show ?thesis by (simp add: fl_def)
next
  case False
  let ?e = "max (ilog2 \<bar>x\<bar> - 52) (- 1074)"
  have "0 \<le> \<bar>x\<bar> / pow2 ?e" using pow2_pos [of ?e] by simp
  then have "0 \<le> round_half_even (\<bar>x\<bar> / pow2 ?e)" by (rule round_half_even_nonneg)
  moreover have "sgn x = 1" using assms False by simp
  ultimately show ?thesis
    using False pow2_pos [of ?e] by (simp add: fl_def Let_def)
qed

section \<open>The price feed\<close>

lemma price_delta_range: "0 \<le> r \<Longrightarrow> r < 1 \<Longrightarrow> - 5 \<le> price_delta r \<and> price_delta r \<le> 5"
  by (simp add: price_delta_def)

lemma price_tick_floor: "7800 \<le> price_tick r p"
  by (simp add: price_tick_def)

lemma price_tick_up: "7800 \<le> p \<Longrightarrow> 0 \<le> r \<Longrightarrow> r < 1 \<Longrightarrow> price_tick r p \<le> p + 5"
  by (simp add: price_tick_def price_delta_def)

lemma prices_hd: "prices p rs ! 0 = p"
  by (cases rs) simp_all

lemma prices_bounds:
  "7800 \<le> p \<Longrightarrow> list_all (\<lambda>r. 0 \<le> r \<and> r < 1) rs \<Longrightarrow>
   (\<forall>q \<in> set (prices p rs). 7800 \<le> q)
   \<and> (\<forall>i. Suc i < length (prices p rs) \<longrightarrow> prices p rs ! Suc i \<le> prices p rs ! i + 5)"
proof (induction rs arbitrary: p)
  case Nil
  then show ?case by simp
next
  case (Cons r rs)
  have fl: "7800 \<le> price_tick r p" by (rule price_tick_floor)
  from Cons.prems have r: "0 \<le> r" "r < 1" and rs: "list_all (\<lambda>r. 0 \<le> r \<and> r < 1) rs"
    by simp_all
  note IH = Cons.IH [OF fl rs]
  have up: "price_tick r p \<le> p + 5" using Cons.prems(1) r by (rule price_tick_up)
  show ?case
  proof (intro conjI ballI allI impI)
    fix q assume "q \<in> set (prices p (r # rs))"
    then show "7800 \<le> q" using IH Cons.prems(1) by auto
  next
    fix i assume "Suc i < length (prices p (r # rs))"
    then show "prices p (r # rs) ! Suc i \<le> prices p (r # rs) ! i + 5"
      using IH up by (cases i) (simp_all add: prices_hd)
  qed
qed

text \<open>
  C8. A tick with \<^verbatim>\<open>Math.random()\<close> = \<open>r\<close> in \<open>[0, 1)\<close> sets the price to
  \<open>max 7800 (p + d)\<close> for a \<open>d\<close> between \<open>-5\<close> and \<open>5\<close>. In every run of ticks from the
  base price, every price is at least 7800 and no tick raises the price by more than 5.
\<close>

theorem C8_price_floor_and_step:
  assumes "0 \<le> r" and "r < 1" and "list_all (\<lambda>x. 0 \<le> x \<and> x < 1) rs"
  shows "(\<exists>d. - 5 \<le> d \<and> d \<le> 5 \<and> price_tick r p = max 7800 (p + d))
    \<and> (\<forall>q \<in> set (prices BASE_GOLD_PRICE_ETB rs). 7800 \<le> q)
    \<and> (\<forall>i. Suc i < length (prices BASE_GOLD_PRICE_ETB rs) \<longrightarrow>
          prices BASE_GOLD_PRICE_ETB rs ! Suc i \<le> prices BASE_GOLD_PRICE_ETB rs ! i + 5)"
proof -
  have "\<exists>d. - 5 \<le> d \<and> d \<le> 5 \<and> price_tick r p = max 7800 (p + d)"
    using price_delta_range [OF assms(1,2)] unfolding price_tick_def by blast
  moreover have "7800 \<le> BASE_GOLD_PRICE_ETB" by (simp add: BASE_GOLD_PRICE_ETB_def)
  ultimately show ?thesis using prices_bounds [OF _ assms(3)] by blast
qed

theorem C8_price_floor_and_step_witness:
  "0 \<le> (0.9::real) \<and> (0.9::real) < 1 \<and> list_all (\<lambda>x. 0 \<le> x \<and> x < 1) [0.9, 0.1::real]
   \<and> (\<exists>d. - 5 \<le> d \<and> d \<le> 5 \<and> price_tick 0.9 7801 = max 7800 (7801 + d))
   \<and> prices BASE_GOLD_PRICE_ETB [0.9, 0.1] ! 2 \<in> set (prices BASE_GOLD_PRICE_ETB [0.9, 0.1])
   \<and> 7800 \<le> prices BASE_GOLD_PRICE_ETB [0.9, 0.1] ! 2
   \<and> Suc 0 < length (prices BASE_GOLD_PRICE_ETB [0.9, 0.1])
   \<and> prices BASE_GOLD_PRICE_ETB [0.9, 0.1] ! Suc 0 \<le> prices BASE_GOLD_PRICE_ETB [0.9, 0.1] ! 0 + 5"
proof -
  have a: "0 \<le> (0.9::real)" "(0.9::real) < 1" "list_all (\<lambda>x. 0 \<le> x \<and> x < 1) [0.9, 0.1::real]"
    by simp_all
  have m: "prices BASE_GOLD_PRICE_ETB [0.9, 0.1] ! 2 \<in> set (prices BASE_GOLD_PRICE_ETB [0.9, 0.1])"
    by simp
  have l: "Suc 0 < length (prices BASE_GOLD_PRICE_ETB [0.9, 0.1])"
    by simp
  from C8_price_floor_and_step [OF a, of 7801] m l a show ?thesis by blast
qed

section \<open>Ordering of the stored transactions\<close>

lemma handleNewTransaction_sorted:
  "fst (handleNewTransaction s tx a b) = Done \<Longrightarrow>
   date_descending (transactions (snd (handleNewTransaction s tx a b)))"
  by (auto simp: handleNewTransaction_def date_descending_sort split: option.splits)

lemma handleTransfer_sorted:
  "fst (handleTransfer s rid g a b c d) = Done \<Longrightarrow>
   date_descending (transactions (snd (handleTransfer s rid g a b c d)))"
  by (auto simp: handleTransfer_def date_descending_sort split: option.splits)

lemma handleLoan_sorted:
  "fst (handleLoan s cg l a b) = Done \<Longrightarrow>
   date_descending (transactions (snd (handleLoan s cg l a b)))"
  by (auto simp: handleLoan_def handleNewTransaction_def date_descending_sort
      split: option.splits)

text \<open>
  C10. Whenever a purchase confirmation, a withdrawal request, a loan or a transfer goes
  through (the only operations that add transactions), the stored list is afterwards in
  descending order of date: each of them sorts the whole list.
\<close>

theorem C10_sorted_after_append:
  "(fst (purchase_intent s e g t1 t2) = Done \<longrightarrow>
      date_descending (transactions (snd (purchase_intent s e g t1 t2))))
   \<and> (fst (withdraw_intent s a t1 t2) = Done \<longrightarrow>
      date_descending (transactions (snd (withdraw_intent s a t1 t2))))
   \<and> (fst (loan_intent s l t1 t2) = Done \<longrightarrow>
      date_descending (transactions (snd (loan_intent s l t1 t2))))
   \<and> (fst (transfer_intent s ident a t1 t2 t3 t4) = Done \<longrightarrow>
      date_descending (transactions (snd (transfer_intent s ident a t1 t2 t3 t4))))"
proof (intro conjI impI)
  assume "fst (purchase_intent s e g t1 t2) = Done"
  then show "date_descending (transactions (snd (purchase_intent s e g t1 t2)))"
    by (auto simp: purchase_intent_def handleManualPaymentConfirm_def
        handleNewTransaction_sorted split: option.splits)
next
  assume "fst (withdraw_intent s a t1 t2) = Done"
  then show "date_descending (transactions (snd (withdraw_intent s a t1 t2)))"
    by (auto simp: withdraw_intent_def handleWithdraw_def
        handleNewTransaction_sorted split: option.splits sum.splits)
next
  assume "fst (loan_intent s l t1 t2) = Done"
  then show "date_descending (transactions (snd (loan_intent s l t1 t2)))"
    by (auto simp: loan_intent_def handleLoan_sorted split: option.splits sum.splits)
next
  assume "fst (transfer_intent s ident a t1 t2 t3 t4) = Done"
  then show "date_descending (transactions (snd (transfer_intent s ident a t1 t2 t3 t4)))"
    by (auto simp: transfer_intent_def handleTransfer_sorted split: option.splits sum.splits)
qed

theorem C10_sorted_after_append_witness:
  "fst (purchase_intent (session_of ''usr_1'') (Some 795.03) (Some 0.1)
          1721900000000 1721900000000) = Done
   \<and> date_descending (transactions (snd (purchase_intent (session_of ''usr_1'')
          (Some 795.03) (Some 0.1) 1721900000000 1721900000000)))
   \<and> fst (withdraw_intent (session_of ''usr_1'') (Some 1) 1721900000000 1721900000000) = Done
   \<and> date_descending (transactions (snd (withdraw_intent (session_of ''usr_1'') (Some 1)
          1721900000000 1721900000000)))
   \<and> fst (loan_intent (session_of ''usr_1'') (Some 1000) 1721900000000 1721900000000) = Done
   \<and> date_descending (transactions (snd (loan_intent (session_of ''usr_1'') (Some 1000)
          1721900000000 1721900000000)))
   \<and> fst (transfer_intent (session_of ''usr_1'') ''+251923456789'' (Some 1)
          1721900000000 1721900000000 1721900000001 1721900000001) = Done
   \<and> date_descending (transactions (snd (transfer_intent (session_of ''usr_1'')
          ''+251923456789'' (Some 1) 1721900000000 1721900000000 1721900000001 1721900000001)))"
proof -
  have p: "fst (purchase_intent (session_of ''usr_1'') (Some 795.03) (Some 0.1)
          1721900000000 1721900000000) = Done"
    by (simp add: eval_defs)
  have w: "fst (withdraw_intent (session_of ''usr_1'') (Some 1) 1721900000000 1721900000000)
          = Done"
    by (simp add: eval_defs)
  have l: "fst (loan_intent (session_of ''usr_1'') (Some 1000) 1721900000000 1721900000000)
          = Done"
    by (simp add: eval_defs)
  have t: "fst (transfer_intent (session_of ''usr_1'') ''+251923456789'' (Some 1)
          1721900000000 1721900000000 1721900000001 1721900000001) = Done"
    by (simp add: eval_defs)
  from C10_sorted_after_append [of "session_of ''usr_1''" "Some 795.03" "Some 0.1"
      1721900000000 1721900000000 "Some 1" "Some 1000" "''+251923456789''"
      1721900000001 1721900000001] p w l t
  show ?thesis by blast
qed

section \<open>Transfers\<close>

lemma handleTransfer_result:
  assumes cu: "currentUser s = Some sender"
    and rc: "map_of (users s) rid = Some recipient"
  shows "fst (handleTransfer s rid g a b c d) = Done"
    and "user_id recipient \<noteq> user_id sender \<Longrightarrow>
         gold_of (snd (handleTransfer s rid g a b c d)) (user_id sender)
           = Some (fl (goldBalance sender - g))"
    and "gold_of (snd (handleTransfer s rid g a b c d)) (user_id recipient)
           = Some (fl (goldBalance recipient + g))"
    and "transactions (snd (handleTransfer s rid g a b c d))
           = sort_by_date_desc (outTx sender recipient g a b # inTx sender recipient g c d
               # transactions s)"
  using cu rc by (simp_all add: handleTransfer_def gold_of_def update_conv')

lemma transfer_intent_valid:
  assumes wf: "wf_users (users s)"
    and cu: "currentUser s = Some sender"
    and ident: "recipientIdentifier \<noteq> []"
    and fr: "find_recipient (users s) sender recipientIdentifier = Some recipient"
    and g: "0 < g" "g \<le> goldBalance sender"
  shows "transfer_intent s recipientIdentifier (Some g) a b c d
           = handleTransfer s (user_id recipient) g a b c d"
    and "map_of (users s) (user_id recipient) = Some recipient"
    and "user_id recipient \<noteq> user_id sender"
proof -
  from find_recipient_SomeD [OF fr]
  have mem: "recipient \<in> snd ` set (users s)" and ne: "user_id recipient \<noteq> user_id sender"
    by simp_all
  show "map_of (users s) (user_id recipient) = Some recipient"
    using wf mem by (rule wf_users_lookup)
  show "user_id recipient \<noteq> user_id sender" by (rule ne)
  show "transfer_intent s recipientIdentifier (Some g) a b c d
           = handleTransfer s (user_id recipient) g a b c d"
    using cu ident fr g by (simp add: transfer_intent_def TransferModal_handleTransfer_def)
qed

lemma tx_ids_differ: "''tx_'' @ String_of a @ ''_out'' \<noteq> ''tx_'' @ String_of b @ ''_in''"
proof
  assume "''tx_'' @ String_of a @ ''_out'' = ''tx_'' @ String_of b @ ''_in''"
  then have "last (''tx_'' @ String_of a @ ''_out'') = last (''tx_'' @ String_of b @ ''_in'')"
    by (rule arg_cong)
  then show False by simp
qed




text \<open>
  C4. For a signed-in sender, a transfer whose identifier matches no other user, or
  whose amount is not positive, or whose amount exceeds the sender's gold balance, ends
  with a validation message and the state it started from: no balance and no
  transaction is created or changed.
\<close>

theorem C4_transfer_rejected_without_change:
  assumes "currentUser s = Some sender"
    and "find_recipient (users s) sender recipientIdentifier = None
         \<or> g \<le> 0 \<or> g > goldBalance sender"
  shows "\<exists>msg. transfer_intent s recipientIdentifier (Some g) t1 t2 t3 t4
                 = (ValidationError msg, s)"
  using assms by (auto simp: transfer_intent_def TransferModal_handleTransfer_def)

theorem C4_transfer_rejected_without_change_witness:
  "currentUser (session_of ''usr_1'') = Some usr_1
   \<and> (find_recipient (users (session_of ''usr_1'')) usr_1 ''fatuma@example.com'' = None
       \<or> (6::real) \<le> 0 \<or> 6 > goldBalance usr_1)
   \<and> transfer_intent (session_of ''usr_1'') ''fatuma@example.com'' (Some 6)
        1721900000000 1721900000000 1721900000001 1721900000001
      = (ValidationError ''Insufficient gold balance.'', session_of ''usr_1'')"
proof -
  have h1: "currentUser (session_of ''usr_1'') = Some usr_1" by (simp add: eval_defs)
  have h2: "find_recipient (users (session_of ''usr_1'')) usr_1 ''fatuma@example.com'' = None
       \<or> (6::real) \<le> 0 \<or> 6 > goldBalance usr_1"
    by (simp add: usr_1_def)
  have m: "fst (transfer_intent (session_of ''usr_1'') ''fatuma@example.com'' (Some 6)
        1721900000000 1721900000000 1721900000001 1721900000001)
      = ValidationError ''Insufficient gold balance.''"
    by (simp add: eval_defs)
  from C4_transfer_rejected_without_change [OF h1 h2,
      of 1721900000000 1721900000000 1721900000001 1721900000001] m
  show ?thesis using h1 h2 by auto
qed

text \<open>
  C7, as the specification states it, asks for swapped \<^verbatim>\<open>from\<close>/\<^verbatim>\<open>to\<close> names on the
  two records of a transfer. For the transfer of 1 g from \<^verbatim>\<open>usr_1\<close> to
  \<^verbatim>\<open>fatuma@example.com\<close> in the seeded state both stored records read from
  Abebe Bikila to Fatuma Roba: the names are not swapped.
\<close>

theorem C7_names_not_swapped:
  "fst (transfer_intent (session_of ''usr_1'') ''fatuma@example.com'' (Some 1)
        1721900000000 1721900000000 1721900000001 1721900000001) = Done
   \<and> find_tx ''tx_1721900000000_out''
        (transactions (snd (transfer_intent (session_of ''usr_1'') ''fatuma@example.com''
           (Some 1) 1721900000000 1721900000000 1721900000001 1721900000001)))
      = Some (outTx usr_1 usr_2 1 1721900000000 1721900000000)
   \<and> find_tx ''tx_1721900000001_in''
        (transactions (snd (transfer_intent (session_of ''usr_1'') ''fatuma@example.com''
           (Some 1) 1721900000000 1721900000000 1721900000001 1721900000001)))
      = Some (inTx usr_1 usr_2 1 1721900000001 1721900000001)
   \<and> tx_from (outTx usr_1 usr_2 1 1721900000000 1721900000000) = Some ''Abebe Bikila''
   \<and> tx_to (outTx usr_1 usr_2 1 1721900000000 1721900000000) = Some ''Fatuma Roba''
   \<and> tx_from (inTx usr_1 usr_2 1 1721900000001 1721900000001) = Some ''Abebe Bikila''
   \<and> tx_to (inTx usr_1 usr_2 1 1721900000001 1721900000001) = Some ''Fatuma Roba''
   \<and> \<not> names_swapped (outTx usr_1 usr_2 1 1721900000000 1721900000000)
         (inTx usr_1 usr_2 1 1721900000001 1721900000001)"
  by (simp add: eval_defs names_swapped_def)

text \<open>
  C7, amended. A valid transfer adds exactly two records to the stored transactions:
  a \<^verbatim>\<open>transfer_out\<close> owned by the sender and a \<^verbatim>\<open>transfer_in\<close> owned by the
  recipient, with different ids, the same amount, status \<^verbatim>\<open>completed\<close>, and the same
  names on both: \<^verbatim>\<open>from\<close> is the sender's name and \<^verbatim>\<open>to\<close> the recipient's.
\<close>

theorem C7_transfer_pair:
  assumes "wf_users (users s)"
    and "currentUser s = Some sender"
    and "recipientIdentifier \<noteq> []"
    and "find_recipient (users s) sender recipientIdentifier = Some recipient"
    and "0 < g" and "g \<le> goldBalance sender"
  shows "fst (transfer_intent s recipientIdentifier (Some g) t1 t2 t3 t4) = Done
    \<and> mset (transactions (snd (transfer_intent s recipientIdentifier (Some g) t1 t2 t3 t4)))
        = mset (transactions s)
          + {#outTx sender recipient g t1 t2, inTx sender recipient g t3 t4#}
    \<and> tx_type (outTx sender recipient g t1 t2) = transfer_out
    \<and> userId (outTx sender recipient g t1 t2) = user_id sender
    \<and> tx_type (inTx sender recipient g t3 t4) = transfer_in
    \<and> userId (inTx sender recipient g t3 t4) = user_id recipient
    \<and> user_id sender \<noteq> user_id recipient
    \<and> tx_id (outTx sender recipient g t1 t2) \<noteq> tx_id (inTx sender recipient g t3 t4)
    \<and> amountGrams (outTx sender recipient g t1 t2) = g
    \<and> amountGrams (inTx sender recipient g t3 t4) = g
    \<and> status (outTx sender recipient g t1 t2) = completed
    \<and> status (inTx sender recipient g t3 t4) = completed
    \<and> names_equal (outTx sender recipient g t1 t2) (inTx sender recipient g t3 t4)
    \<and> tx_from (outTx sender recipient g t1 t2) = Some (name sender)
    \<and> tx_to (outTx sender recipient g t1 t2) = Some (name recipient)"
proof -
  note v = transfer_intent_valid [OF assms]
  note h = handleTransfer_result [OF assms(2) v(2)]
  have "mset (transactions (snd (transfer_intent s recipientIdentifier (Some g) t1 t2 t3 t4)))
        = mset (transactions s)
          + {#outTx sender recipient g t1 t2, inTx sender recipient g t3 t4#}"
    by (simp add: v(1) h(4) mset_sort_by_date_desc)
  moreover have "fst (transfer_intent s recipientIdentifier (Some g) t1 t2 t3 t4) = Done"
    by (simp add: v(1) h(1))
  moreover have "tx_id (outTx sender recipient g t1 t2) \<noteq> tx_id (inTx sender recipient g t3 t4)"
    using tx_ids_differ [of t1 t3] by (simp add: outTx_def inTx_def)
  moreover have "user_id sender \<noteq> user_id recipient" using v(3) by simp
  ultimately show ?thesis by (simp add: outTx_def inTx_def names_equal_def)
qed

theorem C7_transfer_pair_witness:
  "wf_users (users (session_of ''usr_2''))
   \<and> currentUser (session_of ''usr_2'') = Some usr_2
   \<and> ''+251912345678'' \<noteq> []
   \<and> find_recipient (users (session_of ''usr_2'')) usr_2 ''+251912345678'' = Some usr_1
   \<and> (0::real) < 2 \<and> 2 \<le> goldBalance usr_2
   \<and> mset (transactions (snd (transfer_intent (session_of ''usr_2'') ''+251912345678''
        (Some 2) 1721900000000 1721900000000 1721900000001 1721900000001)))
      = mset (transactions (session_of ''usr_2''))
        + {#outTx usr_2 usr_1 2 1721900000000 1721900000000,
            inTx usr_2 usr_1 2 1721900000001 1721900000001#}
   \<and> names_equal (outTx usr_2 usr_1 2 1721900000000 1721900000000)
        (inTx usr_2 usr_1 2 1721900000001 1721900000001)"
proof -
  have h1: "wf_users (users (session_of ''usr_2''))" by (rule wf_initial)
  have h2: "currentUser (session_of ''usr_2'') = Some usr_2" by (simp add: eval_defs)
  have h3: "''+251912345678'' \<noteq> []" by simp
  have h4: "find_recipient (users (session_of ''usr_2'')) usr_2 ''+251912345678'' = Some usr_1"
    by (simp add: eval_defs)
  have h5: "(0::real) < 2" by simp
  have h6: "2 \<le> goldBalance usr_2" by (simp add: usr_2_def)
  from C7_transfer_pair [OF h1 h2 h3 h4 h5 h6,
      of 1721900000000 1721900000000 1721900000001 1721900000001]
  show ?thesis using h1 h2 h4 h6 by simp
qed

section \<open>Approval and rejection\<close>




lemma handleApproval_transactions:
  "transactions (snd (handleApproval s txId action)) = transactions s
   \<or> transactions (snd (handleApproval s txId action))
      = map (\<lambda>t. if tx_id t = txId
                 then t\<lparr>status := (if action = approve then completed else failed)\<rparr>
                 else t) (transactions s)"
  by (simp add: handleApproval_def Let_def split: option.splits)

text \<open>
  C9, as the specification states it, asks that resolving an approval leaves every
  field of every other transaction as it was. The id of a request is
  \<^verbatim>\<open>tx_\<close> followed by the clock reading, and nothing keeps two requests from getting
  the same one. From the seeded state \<^verbatim>\<open>usr_1\<close> requests a withdrawal of 2 g and one
  of 1 g under the same clock reading, and the administrator signs in: the console lists
  the 1 g request first and the 2 g request second, both pending. Approving the 1 g
  request from its row also turns the 2 g request, another transaction, from pending to
  completed.
\<close>

theorem C9_other_record_with_same_id_changes:
  "transactions (run initial_ledger
      [Login ''usr_1'', Withdraw (Some 2) 1721900000000 1721900000000,
       Withdraw (Some 1) 1721900000000 1721900000000, Logout, Login ''usr_3'']) ! 0
     = newTx usr_1 \<lparr>d_type = withdrawal, d_amountGrams = 1, d_amountETB = None,
         d_from = None, d_to = None, d_status = pending\<rparr> 1721900000000 1721900000000
   \<and> transactions (run initial_ledger
      [Login ''usr_1'', Withdraw (Some 2) 1721900000000 1721900000000,
       Withdraw (Some 1) 1721900000000 1721900000000, Logout, Login ''usr_3'']) ! 1
     = newTx usr_1 \<lparr>d_type = withdrawal, d_amountGrams = 2, d_amountETB = None,
         d_from = None, d_to = None, d_status = pending\<rparr> 1721900000000 1721900000000
   \<and> fst (AdminDashboard_resolve (run initial_ledger
      [Login ''usr_1'', Withdraw (Some 2) 1721900000000 1721900000000,
       Withdraw (Some 1) 1721900000000 1721900000000, Logout, Login ''usr_3''])
      (newTx usr_1 \<lparr>d_type = withdrawal, d_amountGrams = 1, d_amountETB = None,
         d_from = None, d_to = None, d_status = pending\<rparr> 1721900000000 1721900000000)
      approve) = Done
   \<and> transactions (snd (AdminDashboard_resolve (run initial_ledger
      [Login ''usr_1'', Withdraw (Some 2) 1721900000000 1721900000000,
       Withdraw (Some 1) 1721900000000 1721900000000, Logout, Login ''usr_3''])
      (newTx usr_1 \<lparr>d_type = withdrawal, d_amountGrams = 1, d_amountETB = None,
         d_from = None, d_to = None, d_status = pending\<rparr> 1721900000000 1721900000000)
      approve)) ! 1
     = (newTx usr_1 \<lparr>d_type = withdrawal, d_amountGrams = 2, d_amountETB = None,
         d_from = None, d_to = None, d_status = pending\<rparr> 1721900000000 1721900000000)
       \<lparr>status := completed\<rparr>
   \<and> transactions (snd (AdminDashboard_resolve (run initial_ledger
      [Login ''usr_1'', Withdraw (Some 2) 1721900000000 1721900000000,
       Withdraw (Some 1) 1721900000000 1721900000000, Logout, Login ''usr_3''])
      (newTx usr_1 \<lparr>d_type = withdrawal, d_amountGrams = 1, d_amountETB = None,
         d_from = None, d_to = None, d_status = pending\<rparr> 1721900000000 1721900000000)
      approve)) ! 1
     \<noteq> transactions (run initial_ledger
      [Login ''usr_1'', Withdraw (Some 2) 1721900000000 1721900000000,
       Withdraw (Some 1) 1721900000000 1721900000000, Logout, Login ''usr_3'']) ! 1"
  by (simp add: eval_defs)

text \<open>
  C9, amended. Resolving an approval keeps the number and the positions of the stored
  transactions, and at every position the id, date, type, amounts, names and owner are
  what they were; a transaction whose id is not the resolved one is unchanged in every
  field.
\<close>

theorem C9_approval_changes_status_only:
  "length (transactions (snd (handleApproval s txId action))) = length (transactions s)
   \<and> (\<forall>i < length (transactions s).
        tx_id (transactions (snd (handleApproval s txId action)) ! i)
          = tx_id (transactions s ! i)
        \<and> tx_date (transactions (snd (handleApproval s txId action)) ! i)
          = tx_date (transactions s ! i)
        \<and> tx_type (transactions (snd (handleApproval s txId action)) ! i)
          = tx_type (transactions s ! i)
        \<and> amountGrams (transactions (snd (handleApproval s txId action)) ! i)
          = amountGrams (transactions s ! i)
        \<and> amountETB (transactions (snd (handleApproval s txId action)) ! i)
          = amountETB (transactions s ! i)
        \<and> tx_from (transactions (snd (handleApproval s txId action)) ! i)
          = tx_from (transactions s ! i)
        \<and> tx_to (transactions (snd (handleApproval s txId action)) ! i)
          = tx_to (transactions s ! i)
        \<and> userId (transactions (snd (handleApproval s txId action)) ! i)
          = userId (transactions s ! i)
        \<and> (tx_id (transactions s ! i) \<noteq> txId \<longrightarrow>
             transactions (snd (handleApproval s txId action)) ! i = transactions s ! i))"
  using handleApproval_transactions [of s txId action]
  by (elim disjE) simp_all

theorem C9_approval_changes_status_only_witness:
  "(4::nat) < length (transactions initial_ledger)
   \<and> tx_id (transactions initial_ledger ! 4) = ''tx_5''
   \<and> status (transactions initial_ledger ! 4) = pending
   \<and> status (transactions (snd (handleApproval initial_ledger ''tx_5'' approve)) ! 4)
       = completed
   \<and> amountGrams (transactions (snd (handleApproval initial_ledger ''tx_5'' approve)) ! 4)
       = amountGrams (transactions initial_ledger ! 4)
   \<and> (0::nat) < length (transactions initial_ledger)
   \<and> tx_id (transactions initial_ledger ! 0) \<noteq> ''tx_5''
   \<and> transactions (snd (handleApproval initial_ledger ''tx_5'' approve)) ! 0
       = transactions initial_ledger ! 0"
proof -
  have l4: "(4::nat) < length (transactions initial_ledger)" by (simp add: eval_defs)
  have l0: "(0::nat) < length (transactions initial_ledger)" by (simp add: eval_defs)
  have i4: "tx_id (transactions initial_ledger ! 4) = ''tx_5''" by (simp add: eval_defs)
  have p4: "status (transactions initial_ledger ! 4) = pending" by (simp add: eval_defs)
  have c4: "status (transactions (snd (handleApproval initial_ledger ''tx_5'' approve)) ! 4)
       = completed"
    by (simp add: eval_defs)
  have n0: "tx_id (transactions initial_ledger ! 0) \<noteq> ''tx_5''" by (simp add: eval_defs)
  from C9_approval_changes_status_only [of initial_ledger "''tx_5''" approve] l4 l0 i4 p4 c4 n0
  show ?thesis by blast
qed

lemma approval_intent_row:
  "t \<in> set (pendingTransactions s) \<Longrightarrow>
   approval_intent s (tx_id t) action = AdminDashboard_resolve s t action"
  by (auto simp: approval_intent_def AdminDashboard_resolve_def pendingTransactions_def
      split: option.splits)

text \<open>
  C2, as the specification states it, asks that the resolve operation leaves a
  transaction alone that is already completed or failed. \<^verbatim>\<open>handleApproval\<close> does not
  read the status of the transaction it resolves. With the administrator signed in to the
  seeded state, where \<^verbatim>\<open>tx_1\<close> is a completed conversion of 2.5 g for \<^verbatim>\<open>usr_1\<close>
  (5.75 g): the handler called with approve credits the 2.5 g again, and called with
  reject turns completed into failed. The console calls the handler by id, for the rows
  it lists; when a later request repeats the clock reading, and with it the id, of a
  withdrawal that is already completed, rejecting the new request from the console turns
  the completed one into failed as well.
\<close>

theorem C2_handler_resolves_completed_transaction:
  "status (transactions (session_of ''usr_3'') ! 0) = completed
   \<and> tx_id (transactions (session_of ''usr_3'') ! 0) = ''tx_1''
   \<and> gold_of (session_of ''usr_3'') ''usr_1'' = Some 5.75
   \<and> fst (handleApproval (session_of ''usr_3'') ''tx_1'' approve) = Done
   \<and> gold_of (snd (handleApproval (session_of ''usr_3'') ''tx_1'' approve)) ''usr_1''
       = Some 8.25
   \<and> fst (handleApproval (session_of ''usr_3'') ''tx_1'' reject) = Done
   \<and> status (transactions (snd (handleApproval (session_of ''usr_3'') ''tx_1'' reject)) ! 0)
       = failed
   \<and> status (transactions (run initial_ledger
        [Login ''usr_1'', Withdraw (Some 1) 1721900000000 1721900000000, Logout,
         Login ''usr_3'', Resolve ''tx_1721900000000'' approve, Logout,
         Login ''usr_1'', Withdraw (Some 2) 1721900000000 1721900000000, Logout,
         Login ''usr_3'']) ! 1) = completed
   \<and> tx_id (transactions (run initial_ledger
        [Login ''usr_1'', Withdraw (Some 1) 1721900000000 1721900000000, Logout,
         Login ''usr_3'', Resolve ''tx_1721900000000'' approve, Logout,
         Login ''usr_1'', Withdraw (Some 2) 1721900000000 1721900000000, Logout,
         Login ''usr_3'']) ! 1) = ''tx_1721900000000''
   \<and> fst (approval_intent (run initial_ledger
        [Login ''usr_1'', Withdraw (Some 1) 1721900000000 1721900000000, Logout,
         Login ''usr_3'', Resolve ''tx_1721900000000'' approve, Logout,
         Login ''usr_1'', Withdraw (Some 2) 1721900000000 1721900000000, Logout,
         Login ''usr_3'']) ''tx_1721900000000'' reject) = Done
   \<and> status (transactions (snd (approval_intent (run initial_ledger
        [Login ''usr_1'', Withdraw (Some 1) 1721900000000 1721900000000, Logout,
         Login ''usr_3'', Resolve ''tx_1721900000000'' approve, Logout,
         Login ''usr_1'', Withdraw (Some 2) 1721900000000 1721900000000, Logout,
         Login ''usr_3'']) ''tx_1721900000000'' reject)) ! 1) = failed"
  by (simp add: eval_defs)

text \<open>
  C2, amended. What keeps a resolved transaction from being resolved again is the list
  of the console, the only caller of the handler: a transaction that is completed or
  failed is not listed and has no approve or reject button, so resolving it again, with
  either decision, is not offered and returns the state as it was, with every balance and
  every status. The same holds for a request by id when no pending transaction carries
  the id.
\<close>

theorem C2_terminal_transaction_not_resolved:
  assumes "status t = completed \<or> status t = failed"
  shows "(AdminDashboard_resolve s t action = (NoSession, s)
          \<or> AdminDashboard_resolve s t action = (NotOffered, s))
    \<and> ((\<forall>x \<in> set (transactions s). tx_id x = tx_id t \<longrightarrow> status x \<noteq> pending) \<longrightarrow>
         approval_intent s (tx_id t) action = (NoSession, s)
         \<or> approval_intent s (tx_id t) action = (NotOffered, s))"
proof (intro conjI impI)
  from assms have "t \<notin> set (pendingTransactions s)"
    by (auto simp: pendingTransactions_def)
  then show "AdminDashboard_resolve s t action = (NoSession, s)
          \<or> AdminDashboard_resolve s t action = (NotOffered, s)"
    by (simp add: AdminDashboard_resolve_def split: option.splits)
next
  assume "\<forall>x \<in> set (transactions s). tx_id x = tx_id t \<longrightarrow> status x \<noteq> pending"
  then have "tx_id t \<notin> set (map tx_id (filter (\<lambda>t. status t = pending) (transactions s)))"
    by auto
  then show "approval_intent s (tx_id t) action = (NoSession, s)
         \<or> approval_intent s (tx_id t) action = (NotOffered, s)"
    by (simp add: approval_intent_def split: option.splits)
qed

theorem C2_terminal_transaction_not_resolved_witness:
  "(status (transactions (session_of ''usr_3'') ! 0) = completed
      \<or> status (transactions (session_of ''usr_3'') ! 0) = failed)
   \<and> tx_id (transactions (session_of ''usr_3'') ! 0) = ''tx_1''
   \<and> gold_of (session_of ''usr_3'') ''usr_1'' = Some 5.75
   \<and> AdminDashboard_resolve (session_of ''usr_3'') (transactions (session_of ''usr_3'') ! 0)
        approve = (NotOffered, session_of ''usr_3'')
   \<and> approval_intent (session_of ''usr_3'') ''tx_1'' reject
        = (NotOffered, session_of ''usr_3'')"
proof -
  let ?s = "session_of ''usr_3''"
  have h: "status (transactions ?s ! 0) = completed \<or> status (transactions ?s ! 0) = failed"
    by (simp add: eval_defs)
  have id: "tx_id (transactions ?s ! 0) = ''tx_1''" by (simp add: eval_defs)
  have g: "gold_of ?s ''usr_1'' = Some 5.75" by (simp add: eval_defs)
  have np: "\<forall>x \<in> set (transactions ?s). tx_id x = tx_id (transactions ?s ! 0)
              \<longrightarrow> status x \<noteq> pending"
    by (simp add: eval_defs)
  have a: "fst (AdminDashboard_resolve ?s (transactions ?s ! 0) approve) = NotOffered"
    by (simp add: eval_defs)
  have b: "fst (approval_intent ?s ''tx_1'' reject) = NotOffered"
    by (simp add: eval_defs)
  from C2_terminal_transaction_not_resolved [OF h, of ?s approve] a
  have r1: "AdminDashboard_resolve ?s (transactions ?s ! 0) approve = (NotOffered, ?s)"
    by auto
  from C2_terminal_transaction_not_resolved [OF h, of ?s reject] np b
  have r2: "approval_intent ?s ''tx_1'' reject = (NotOffered, ?s)"
    by (auto simp: id)
  from h id g r1 r2 show ?thesis by blast
qed

text \<open>
  C1 asks that no sequence of operations makes a balance negative. The debit of a
  withdrawal is checked against the balance when the request is made and applied,
  unchecked, when it is approved. From the seeded state: \<^verbatim>\<open>usr_2\<close> (12.25 g, with the
  seeded pending withdrawal \<^verbatim>\<open>tx_7\<close> of 2 g) signs in and requests a withdrawal of 12 g;
  the administrator signs in and approves both pending withdrawals from the console. The
  first approval leaves 10.25 g, the second leaves -1.75 g.
\<close>

theorem C1_two_approved_withdrawals_overdraw:
  "balances_nonneg initial_ledger
   \<and> gold_of (run initial_ledger
        [Login ''usr_2'', Withdraw (Some 12) 1721900000000 1721900000000, Logout,
         Login ''usr_3'', Resolve ''tx_7'' approve]) ''usr_2'' = Some 10.25
   \<and> gold_of (run initial_ledger
        [Login ''usr_2'', Withdraw (Some 12) 1721900000000 1721900000000, Logout,
         Login ''usr_3'', Resolve ''tx_7'' approve, Resolve ''tx_1721900000000'' approve])
        ''usr_2'' = Some (- 1.75)
   \<and> \<not> balances_nonneg (run initial_ledger
        [Login ''usr_2'', Withdraw (Some 12) 1721900000000 1721900000000, Logout,
         Login ''usr_3'', Resolve ''tx_7'' approve, Resolve ''tx_1721900000000'' approve])"
  by (simp add: eval_defs)

section \<open>Loans\<close>








section \<open>Withdrawals\<close>








section \<open>Where balances stay non-negative\<close>

lemma list_all_update:
  "list_all P us \<Longrightarrow> P (k, v) \<Longrightarrow> list_all P (AList.update k v us)"
  by (induction us) auto

lemma currentUser_mem: "currentUser s = Some u \<Longrightarrow> u \<in> snd ` set (users s)"
  by (auto simp: currentUser_def split: option.splits if_splits dest!: map_of_SomeD
      intro: rev_image_eqI)

lemma balances_nonneg_mem:
  "balances_nonneg s \<Longrightarrow> u \<in> snd ` set (users s) \<Longrightarrow> 0 \<le> goldBalance u \<and> 0 \<le> etbBalance u"
  by (auto simp: balances_nonneg_def list_all_iff)

lemma balances_nonneg_update:
  "balances_nonneg s \<Longrightarrow> 0 \<le> goldBalance v \<Longrightarrow> 0 \<le> etbBalance v \<Longrightarrow>
   balances_nonneg (s\<lparr>users := AList.update k v (users s)\<rparr>)"
  by (simp add: balances_nonneg_def list_all_update)

lemma balances_nonneg_transactions:
  "balances_nonneg (s\<lparr>transactions := txs\<rparr>) = balances_nonneg s"
  by (simp add: balances_nonneg_def)

lemma handleNewTransaction_users: "users (snd (handleNewTransaction s tx a b)) = users s"
  by (simp add: handleNewTransaction_def split: option.splits)

lemma transfer_intent_nonneg:
  assumes nn: "balances_nonneg s"
  shows "balances_nonneg (snd (transfer_intent s ident a t1 t2 t3 t4))"
proof (cases "currentUser s")
  case None
  then show ?thesis using nn by (simp add: transfer_intent_def)
next
  case (Some cu)
  note cu_nn = balances_nonneg_mem [OF nn currentUser_mem [OF Some]]
  show ?thesis
  proof (cases "TransferModal_handleTransfer cu (users s) ident a")
    case (Inl msg)
    then show ?thesis using nn Some by (simp add: transfer_intent_def)
  next
    case (Inr p)
    obtain rid g where p: "p = (rid, g)" by (cases p)
    from Inr p have g: "0 < g" "g \<le> goldBalance cu"
      and fr: "\<exists>r. find_recipient (users s) cu ident = Some r \<and> rid = user_id r"
      by (auto simp: TransferModal_handleTransfer_def split: option.splits if_splits)
    show ?thesis
    proof (cases "map_of (users s) rid")
      case None
      then show ?thesis using nn Some Inr p
        by (simp add: transfer_intent_def handleTransfer_def)
    next
      case (Some r)
      then have "r \<in> snd ` set (users s)"
        by (auto dest!: map_of_SomeD intro: rev_image_eqI)
      note r_nn = balances_nonneg_mem [OF nn this]
      have s1: "balances_nonneg
          (s\<lparr>users := AList.update (user_id cu)
                (cu\<lparr>goldBalance := fl (goldBalance cu - g)\<rparr>) (users s)\<rparr>)"
        using nn cu_nn g by (intro balances_nonneg_update) (simp_all add: fl_nonneg)
      have "balances_nonneg
          (s\<lparr>users := AList.update (user_id r) (r\<lparr>goldBalance := fl (goldBalance r + g)\<rparr>)
                (AList.update (user_id cu) (cu\<lparr>goldBalance := fl (goldBalance cu - g)\<rparr>)
                   (users s))\<rparr>)"
        using balances_nonneg_update [OF s1, of "r\<lparr>goldBalance := fl (goldBalance r + g)\<rparr>"
            "user_id r"] r_nn g
        by (simp add: fl_nonneg)
      then show ?thesis using \<open>currentUser s = Some cu\<close> Inr p Some
        by (simp add: transfer_intent_def handleTransfer_def balances_nonneg_def)
    qed
  qed
qed

lemma withdraw_intent_users: "users (snd (withdraw_intent s a t1 t2)) = users s"
  by (simp add: withdraw_intent_def handleWithdraw_def handleNewTransaction_users
      split: option.splits sum.splits)

lemma purchase_intent_users: "users (snd (purchase_intent s e g t1 t2)) = users s"
  by (simp add: purchase_intent_def handleManualPaymentConfirm_def
      handleNewTransaction_users split: option.splits prod.splits)

lemma handleApproval_reject_users: "users (snd (handleApproval s txId reject)) = users s"
  by (simp add: handleApproval_def split: option.splits)

text \<open>
  Transfers, requests and rejections keep all balances at or above zero: a transfer
  compares the debit with the balance right before it applies it, and rounding does not
  turn a non-negative number negative; requests and rejections change no user record. The
  debits that can go below zero are the one of an approved withdrawal, applied without a
  comparison, and the collateral of a loan, which the form bounds through rounded
  products.
\<close>

lemma balances_nonneg_kept:
  assumes "balances_nonneg s"
  shows "balances_nonneg (snd (transfer_intent s ident a t1 t2 t3 t4))"
    and "balances_nonneg (snd (withdraw_intent s a t1 t2))"
    and "balances_nonneg (snd (purchase_intent s e g t1 t2))"
    and "balances_nonneg (snd (handleApproval s txId reject))"
  using assms transfer_intent_nonneg
  by (simp_all add: balances_nonneg_def withdraw_intent_users purchase_intent_users
      handleApproval_reject_users)

end
